theory Spec2Isabelle
  imports Complex_Main
begin

section \<open>The activity log page of atlas-web\<close>

text \<open>
  A shallow embedding of \<^verbatim>\<open>src/routes/_main/activity.tsx\<close>: the relative-time label
  (\<^verbatim>\<open>formatTimeAgo\<close>), the trigger-reason formatter (\<^verbatim>\<open>formatTriggerReason\<close>), the
  presenter (\<^verbatim>\<open>getActivityDetails\<close>, \<^verbatim>\<open>getActivityIcon\<close>) and the values the page
  component \<^verbatim>\<open>ActivityPage\<close> derives from its queries before it renders.

  Conventions of the model.
  \<^item> A JavaScript string is a \<^typ>\<open>string\<close> holding its UTF-8 bytes. Every pattern the
    source searches for is ASCII, and the regular expression class \<^verbatim>\<open>\w\<close> (without the
    \<^verbatim>\<open>u\<close> and \<^verbatim>\<open>i\<close> flags) holds ASCII letters, digits and the underscore only, so a
    byte of a multi-byte character is treated as the source treats the character: it is
    not a word character and no pattern matches inside it.
  \<^item> A JavaScript number that counts servers, players or milliseconds is an \<^typ>\<open>int\<close>;
    the one non-integer the source can produce from such fields, \<^verbatim>\<open>NaN\<close>, is a
    constructor of its own. The model is exact where the doubles of the source are: for
    integers below \<open>2\<^sup>5\<^sup>2\<close> in absolute value, which holds every count and every
    difference of two dates within some hundred thousand years of each other.
  \<^item> A thrown exception is the left injection of a sum type.
\<close>

subsection \<open>JavaScript values, numbers and their conversion to text\<close>

datatype jsval = JUndefined | JNull | JBool bool | JNum int | JStr string

datatype error = TypeError

datatype jsnum = Num int | NaN

text \<open>ToBoolean, as used by \<^verbatim>\<open>!x\<close>, \<^verbatim>\<open>x || y\<close> and \<^verbatim>\<open>x ? y : z\<close>.\<close>

fun truthy :: "jsval \<Rightarrow> bool" where
  "truthy JUndefined = False"
| "truthy JNull = False"
| "truthy (JBool b) = b"
| "truthy (JNum n) = (n \<noteq> 0)"
| "truthy (JStr s) = (s \<noteq> [])"

definition digit_char :: "nat \<Rightarrow> char" where
  "digit_char d = ''0123456789'' ! d"

text \<open>Number-to-string conversion of an integer, as a template literal performs it.\<close>

fun show_nat :: "nat \<Rightarrow> string" where
  "show_nat n = (if n < 10 then [digit_char n] else show_nat (n div 10) @ [digit_char (n mod 10)])"

declare show_nat.simps [simp del]

definition show_int :: "int \<Rightarrow> string" where
  "show_int i = (if i < 0 then CHR ''-'' # show_nat (nat (- i)) else show_nat (nat i))"

fun show_num :: "jsnum \<Rightarrow> string" where
  "show_num (Num i) = show_int i"
| "show_num NaN = ''NaN''"

text \<open>
  Reading a numeric field of a loosely typed object gives the number or \<^verbatim>\<open>undefined\<close>;
  \<open>show_field\<close> is what a template literal prints for it, \<open>or_zero\<close> is \<^verbatim>\<open>x || 0\<close>,
  \<open>or_default\<close> is \<^verbatim>\<open>x || d\<close> on a string field, and \<open>js_minus\<close> is the subtraction
  of two such reads (\<^verbatim>\<open>undefined\<close> converts to \<^verbatim>\<open>NaN\<close>).
\<close>

fun show_field :: "int option \<Rightarrow> string" where
  "show_field None = ''undefined''"
| "show_field (Some n) = show_int n"

fun or_zero :: "int option \<Rightarrow> int" where
  "or_zero None = 0"
| "or_zero (Some n) = (if n \<noteq> 0 then n else 0)"

fun or_default :: "string option \<Rightarrow> string \<Rightarrow> string" where
  "or_default None d = d"
| "or_default (Some s) d = (if s \<noteq> [] then s else d)"

fun js_minus :: "int option \<Rightarrow> int option \<Rightarrow> jsnum" where
  "js_minus (Some a) (Some b) = Num (a - b)"
| "js_minus _ _ = NaN"

subsection \<open>formatTimeAgo\<close>

text \<open>
  \<^verbatim>\<open>new Date()\<close> and \<^verbatim>\<open>new Date(string)\<close> belong to the host: the current time \<open>now\<close>
  (milliseconds since the epoch) and the parser \<open>parse\<close> (\<open>None\<close> for an invalid date,
  whose \<^verbatim>\<open>getTime()\<close> is \<^verbatim>\<open>NaN\<close>) are parameters. \<open>utcTimestamp\<close> is the argument
  the source hands to the parser, \<^verbatim>\<open>timestamp + (timestamp.includes("Z") ? "" : "Z")\<close>.
\<close>

definition utcTimestamp :: "string \<Rightarrow> string" where
  "utcTimestamp timestamp = timestamp @ (if CHR ''Z'' \<in> set timestamp then [] else ''Z'')"

text \<open>
  The lines after \<^verbatim>\<open>diffMs\<close>; \<^verbatim>\<open>Math.floor(a / b)\<close> on integers with a positive divisor
  is \<open>div\<close>, which rounds towards minus infinity as \<^verbatim>\<open>Math.floor\<close> does.
\<close>

definition timeAgoLabel :: "int \<Rightarrow> string" where
  "timeAgoLabel diffMs =
     (let diffMinutes = diffMs div (1000 * 60) in
      if diffMinutes < 1 then ''now''
      else if diffMinutes < 60 then show_int diffMinutes @ ''m''
      else let diffHours = diffMinutes div 60 in
        if diffHours < 24 then show_int diffHours @ ''h''
        else let diffDays = diffHours div 24 in show_int diffDays @ ''d'')"

text \<open>
  With an invalid date every comparison with \<^verbatim>\<open>NaN\<close> is false, so the last
  \<^verbatim>\<open>return\<close> is reached and prints \<^verbatim>\<open>NaN\<close>.
\<close>

definition formatTimeAgo :: "(string \<Rightarrow> int option) \<Rightarrow> int \<Rightarrow> string \<Rightarrow> string" where
  "formatTimeAgo parse now timestamp =
     (case parse (utcTimestamp timestamp) of
        None \<Rightarrow> ''NaNd''
      | Some activityTime \<Rightarrow> timeAgoLabel (now - activityTime))"

subsection \<open>formatTriggerReason\<close>

text \<open>The class \<^verbatim>\<open>\w\<close>: digits, upper-case letters, the underscore, lower-case letters.\<close>

definition is_word_char :: "char \<Rightarrow> bool" where
  "is_word_char c =
     (c \<in> set ''0123456789ABCDEFGHIJKLMNOPQRSTUVWXYZ_abcdefghijklmnopqrstuvwxyz'')"

text \<open>\<^verbatim>\<open>toUpperCase\<close> on a one-character match of \<^verbatim>\<open>\w\<close>.\<close>

definition toUpperCase_char :: "char \<Rightarrow> char" where
  "toUpperCase_char c =
     (case map_of (zip ''abcdefghijklmnopqrstuvwxyz'' ''ABCDEFGHIJKLMNOPQRSTUVWXYZ'') c of
        Some u \<Rightarrow> u
      | None \<Rightarrow> c)"

text \<open>\<^verbatim>\<open>.replace(/_/g, " ")\<close>.\<close>

definition replace_underscores :: "string \<Rightarrow> string" where
  "replace_underscores s = map (\<lambda>c. if c = CHR ''_'' then CHR '' '' else c) s"

text \<open>
  \<^verbatim>\<open>.replace(/\b\w/g, (l) => l.toUpperCase())\<close>: a left-to-right scan; a word character
  matches when the character before it in the scanned string is not a word character (or
  there is none). The flag says whether the previous character was a word character.
\<close>

fun upcase_word_starts :: "bool \<Rightarrow> string \<Rightarrow> string" where
  "upcase_word_starts prev [] = []"
| "upcase_word_starts prev (c # cs) =
     (if is_word_char c \<and> \<not> prev then toUpperCase_char c else c)
       # upcase_word_starts (is_word_char c) cs"

text \<open>
  \<^verbatim>\<open>.replace(pattern, replacement)\<close> with a string pattern: only the leftmost occurrence
  is replaced (the replacements of the source hold no \<^verbatim>\<open>$\<close>).
\<close>

fun replace_first :: "string \<Rightarrow> string \<Rightarrow> string \<Rightarrow> string" where
  "replace_first pat rep [] = (if pat = [] then rep else [])"
| "replace_first pat rep (c # cs) =
     (if take (length pat) (c # cs) = pat then rep @ drop (length pat) (c # cs)
      else c # replace_first pat rep cs)"

definition apply_overrides :: "string \<Rightarrow> string" where
  "apply_overrides formatted =
     replace_first ''Scale Down Threshold'' ''Low utilization''
       (replace_first ''Scale Up Threshold'' ''High utilization''
         (replace_first ''Maximum Servers Enforcement'' ''Maintaining maximum servers''
           (replace_first ''Minimum Servers Enforcement'' ''Maintaining minimum servers''
              formatted)))"

text \<open>
  The argument comes from \<^verbatim>\<open>metadata.trigger_reason\<close>, whose declared type the call does
  not check at run time: a falsy value gives the empty string, a string is formatted, and
  any other truthy value has no \<^verbatim>\<open>replace\<close> method, so the call throws a TypeError.
\<close>

fun formatTriggerReason :: "jsval \<Rightarrow> error + string" where
  "formatTriggerReason (JStr reason) =
     (if reason = [] then Inr []
      else Inr (apply_overrides (upcase_word_starts False (replace_underscores reason))))"
| "formatTriggerReason v = (if \<not> truthy v then Inr [] else Inl TypeError)"

subsection \<open>The activity record\<close>

text \<open>
  \<^verbatim>\<open>Activity\<close> is declared in the API schema, outside this file; the record holds the
  fields the page reads. \<^verbatim>\<open>metadata\<close> is optional, and each of its fields may be absent
  (\<open>None\<close>, read as \<^verbatim>\<open>undefined\<close>). A count, when present, is an integer and a label,
  when present, is a string. \<^verbatim>\<open>trigger_reason\<close> is kept as an arbitrary scalar: it is
  the one field on which the presenter calls a method, the one place where the
  \<^verbatim>\<open>try\<close> block can throw on data decoded from JSON.
\<close>

record activity_metadata =
  servers_before :: "int option"
  servers_after :: "int option"
  direction :: "string option"
  trigger_reason :: jsval
  newPlayerCount :: "int option"
  previousPlayerCount :: "int option"
  timeWindow :: "string option"
  capacity :: "int option"
  reason :: "string option"
  previousUptime :: "string option"

record activity =
  activity_id :: string
  activityType :: string
  metadata :: "activity_metadata option"
  timestamp :: string
  groupName :: "string option"
  triggeredBy :: string
  description :: string

subsection \<open>getActivityIcon\<close>

datatype icon =
  TrendingUp | TrendingDown | Users | UserMinus | AlertTriangle | RotateCcw | Power | Dot

definition getActivityIcon :: "activity \<Rightarrow> icon" where
  "getActivityIcon a =
     (if activityType a = ''SCALING_OPERATION'' then
        (if (case metadata a of None \<Rightarrow> None | Some m \<Rightarrow> direction m) = Some ''up''
         then TrendingUp else TrendingDown)
      else if activityType a = ''PLAYER_SURGE'' then Users
      else if activityType a = ''PLAYER_DROP'' then UserMinus
      else if activityType a = ''CAPACITY_REACHED'' then AlertTriangle
      else if activityType a = ''SERVER_RESTART'' then RotateCcw
      else if activityType a = ''ATLAS_LIFECYCLE'' then Power
      else Dot)"

subsection \<open>getActivityDetails\<close>

text \<open>
  The object the presenter returns; the early return for a missing \<^verbatim>\<open>metadata\<close> has no
  \<^verbatim>\<open>badge\<close> property (\<open>None\<close>).
\<close>

record activity_details =
  summary :: string
  details :: string
  badge :: "string option"

text \<open>The separator of the summaries, a space, U+2192 (three bytes in UTF-8) and a space.\<close>

definition arrow :: string where
  "arrow = [CHR '' '', CHR 0xE2, CHR 0x86, CHR 0x92, CHR '' '']"

text \<open>
  The \<^verbatim>\<open>switch\<close> inside the \<^verbatim>\<open>try\<close> block. In the scaling case the properties of the
  object literal are evaluated in order, so \<^verbatim>\<open>formatTriggerReason\<close> runs after the
  summary is built and, when it throws, nothing is returned.
\<close>

definition getActivityDetails_switch :: "string \<Rightarrow> activity_metadata \<Rightarrow> error + activity_details" where
  "getActivityDetails_switch ty m =
     (if ty = ''SCALING_OPERATION'' then
        (let beforeCount = or_zero (servers_before m);
             afterCount = or_zero (servers_after m);
             diff = afterCount - beforeCount;
             sign = (if direction m = Some ''up'' then ''+'' else ''-'')
         in case formatTriggerReason (trigger_reason m) of
              Inl e \<Rightarrow> Inl e
            | Inr formatted \<Rightarrow>
                Inr \<lparr>summary = show_int beforeCount @ arrow @ show_int afterCount @ '' servers'',
                     details = (if formatted \<noteq> [] then formatted else ''Auto-scaling triggered''),
                     badge = Some (sign @ show_int \<bar>diff\<bar>)\<rparr>)
      else if ty = ''PLAYER_SURGE'' then
        (let playerDiff = js_minus (newPlayerCount m) (previousPlayerCount m)
         in Inr \<lparr>summary = show_field (previousPlayerCount m) @ arrow
                          @ show_field (newPlayerCount m) @ '' players'',
                 details = ''Surge detected in '' @ or_default (timeWindow m) ''5m'',
                 badge = Some (''+'' @ show_num playerDiff)\<rparr>)
      else if ty = ''PLAYER_DROP'' then
        (let dropDiff = js_minus (previousPlayerCount m) (newPlayerCount m)
         in Inr \<lparr>summary = show_field (previousPlayerCount m) @ arrow
                          @ show_field (newPlayerCount m) @ '' players'',
                 details = ''Drop detected in '' @ or_default (timeWindow m) ''5m'',
                 badge = Some (''-'' @ show_num dropDiff)\<rparr>)
      else if ty = ''CAPACITY_REACHED'' then
        Inr \<lparr>summary = show_field (newPlayerCount m) @ ''/'' @ show_field (capacity m)
                      @ '' players'',
             details = ''Server at maximum capacity'',
             badge = Some ''FULL''\<rparr>
      else if ty = ''SERVER_RESTART'' then
        Inr \<lparr>summary = or_default (reason m) ''Manual restart'',
             details = (case previousUptime m of
                          None \<Rightarrow> []
                        | Some u \<Rightarrow> if u \<noteq> [] then ''Uptime: '' @ u else []),
             badge = Some ''RESTART''\<rparr>
      else if ty = ''ATLAS_LIFECYCLE'' then
        Inr \<lparr>summary = ''System event'', details = ''Atlas lifecycle change'',
             badge = Some ''SYSTEM''\<rparr>
      else Inr \<lparr>summary = [], details = [], badge = Some []\<rparr>)"

text \<open>\<^verbatim>\<open>try { body } catch { handler }\<close>.\<close>

definition try_catch :: "error + 'a \<Rightarrow> (error + 'a) \<Rightarrow> error + 'a" where
  "try_catch body handler = (case body of Inl e \<Rightarrow> handler | Inr v \<Rightarrow> Inr v)"

definition getActivityDetails :: "activity \<Rightarrow> error + activity_details" where
  "getActivityDetails a =
     (case metadata a of
        None \<Rightarrow> Inr \<lparr>summary = [], details = [], badge = None\<rparr>
      | Some m \<Rightarrow>
          try_catch (getActivityDetails_switch (activityType a) m)
            (Inr \<lparr>summary = [], details = [], badge = Some []\<rparr>))"

subsection \<open>ActivityPage\<close>

definition ITEMS_PER_PAGE :: nat where
  "ITEMS_PER_PAGE = 20"

text \<open>
  The values the component derives from the result of the activities query:
  \<^verbatim>\<open>(activitiesData?.data || []).filter(...)\<close>, then \<^verbatim>\<open>hasNextPage\<close> and
  \<^verbatim>\<open>hasPrevPage\<close>. The query result is \<open>None\<close> while there is no data.
\<close>

definition activities :: "activity list option \<Rightarrow> activity list" where
  "activities activitiesData =
     filter (\<lambda>a. activityType a \<noteq> ''BACKUP_OPERATION'')
       (case activitiesData of None \<Rightarrow> [] | Some d \<Rightarrow> d)"

definition hasNextPage :: "activity list option \<Rightarrow> bool" where
  "hasNextPage activitiesData = (length (activities activitiesData) = ITEMS_PER_PAGE)"

definition hasPrevPage :: "int \<Rightarrow> bool" where
  "hasPrevPage currentPage = (currentPage > 1)"

text \<open>
  What is rendered, without markup and colours: the list area is ten skeletons, the
  zero-results message, or one row per activity; the pagination bar is present or not.
\<close>

datatype badge_variant = Success | Destructive | Secondary

record row =
  row_activity :: activity
  row_icon :: icon
  row_badge :: "(badge_variant \<times> string) option"
  row_time :: string
  row_summary :: string
  row_details :: string

datatype list_area = Skeletons nat | NoActivityFound | Rows "row list"

record pagination =
  page_label :: int
  prev_disabled :: bool
  next_disabled :: bool

record page_view =
  list_area :: list_area
  pagination_bar :: "pagination option"

definition badge_variant_of :: "string \<Rightarrow> badge_variant" where
  "badge_variant_of b =
     (if CHR ''+'' \<in> set b \<or> b = ''SUCCESS'' \<or> b = ''SURGE'' then Success
      else if CHR ''-'' \<in> set b \<or> b = ''FAILED'' \<or> b = ''FULL'' then Destructive
      else Secondary)"

text \<open>The callback of \<^verbatim>\<open>activities.map\<close>; an exception of the presenter would leave it.\<close>

definition render_row :: "(string \<Rightarrow> int option) \<Rightarrow> int \<Rightarrow> activity \<Rightarrow> error + row" where
  "render_row parse now a =
     (case getActivityDetails a of
        Inl e \<Rightarrow> Inl e
      | Inr d \<Rightarrow>
          Inr \<lparr>row_activity = a,
               row_icon = getActivityIcon a,
               row_badge = (case badge d of
                              None \<Rightarrow> None
                            | Some b \<Rightarrow> if b \<noteq> [] then Some (badge_variant_of b, b) else None),
               row_time = formatTimeAgo parse now (timestamp a),
               row_summary = (if summary d \<noteq> [] then summary d else description a),
               row_details = (if details d \<noteq> [] then details d
                              else ''Triggered by '' @ triggeredBy a)\<rparr>)"

fun render_rows :: "(string \<Rightarrow> int option) \<Rightarrow> int \<Rightarrow> activity list \<Rightarrow> error + row list" where
  "render_rows parse now [] = Inr []"
| "render_rows parse now (a # as) =
     (case render_row parse now a of
        Inl e \<Rightarrow> Inl e
      | Inr r \<Rightarrow>
          (case render_rows parse now as of Inl e \<Rightarrow> Inl e | Inr rs \<Rightarrow> Inr (r # rs)))"

definition ActivityPage ::
  "(string \<Rightarrow> int option) \<Rightarrow> int \<Rightarrow> bool \<Rightarrow> activity list option \<Rightarrow> int \<Rightarrow> error + page_view" where
  "ActivityPage parse now isPending activitiesData currentPage =
     (let acts = activities activitiesData;
          bar = (if \<not> isPending \<and> length acts > 0
                 then Some \<lparr>page_label = currentPage,
                            prev_disabled = (\<not> hasPrevPage currentPage),
                            next_disabled = (\<not> hasNextPage activitiesData)\<rparr>
                 else None)
      in if isPending then Inr \<lparr>list_area = Skeletons 10, pagination_bar = bar\<rparr>
         else if length acts = 0 then Inr \<lparr>list_area = NoActivityFound, pagination_bar = bar\<rparr>
         else (case render_rows parse now acts of
                 Inl e \<Rightarrow> Inl e
               | Inr rs \<Rightarrow> Inr \<lparr>list_area = Rows rs, pagination_bar = bar\<rparr>))"

subsection \<open>Sample values\<close>

text \<open>
  The object \<^verbatim>\<open>{}\<close> as a \<^verbatim>\<open>metadata\<close>, and an activity of a given type and
  metadata; the concrete instances below are built from them.
\<close>

definition empty_metadata :: activity_metadata where
  "empty_metadata =
     \<lparr>servers_before = None, servers_after = None, direction = None,
      trigger_reason = JUndefined, newPlayerCount = None, previousPlayerCount = None,
      timeWindow = None, capacity = None, reason = None, previousUptime = None\<rparr>"

definition sample_activity :: "string \<Rightarrow> activity_metadata option \<Rightarrow> activity" where
  "sample_activity ty m =
     \<lparr>activity_id = ''a1'', activityType = ty, metadata = m,
      timestamp = ''2024-01-01T10:00:00'', groupName = None,
      triggeredBy = ''system'', description = ''An event''\<rparr>"

section \<open>Properties\<close>

subsection \<open>Auxiliary facts\<close>

text \<open>
  The presenter returns for every activity, so does the rendering of a row and of a list
  of rows, which keeps one row per activity, in order.
\<close>

lemma getActivityDetails_returns: "\<exists>d. getActivityDetails a = Inr d"
  by (simp add: getActivityDetails_def try_catch_def split: option.split sum.split)

lemma render_row_returns: "\<exists>r. render_row parse now a = Inr r \<and> row_activity r = a"
proof -
  obtain d where "getActivityDetails a = Inr d"
    using getActivityDetails_returns by blast
  then show ?thesis by (simp add: render_row_def)
qed

lemma render_rows_returns:
  "\<exists>rs. render_rows parse now as = Inr rs \<and> map row_activity rs = as"
proof (induction as)
  case Nil
  show ?case by simp
next
  case (Cons a as)
  obtain r where r: "render_row parse now a = Inr r" "row_activity r = a"
    using render_row_returns by blast
  from Cons obtain rs where rs: "render_rows parse now as = Inr rs" "map row_activity rs = as"
    by blast
  show ?case using r rs by simp
qed

lemma hasNextPage_counts_filtered:
  "hasNextPage (Some page) \<longleftrightarrow>
     length (filter (\<lambda>a. activityType a \<noteq> ''BACKUP_OPERATION'') page) = 20"
  by (simp add: hasNextPage_def activities_def ITEMS_PER_PAGE_def)

lemma activities_no_backup:
  "a \<in> set (activities d) \<Longrightarrow> activityType a \<noteq> ''BACKUP_OPERATION''"
  by (simp add: activities_def)

text \<open>
  The chain of floor divisions of \<^verbatim>\<open>formatTimeAgo\<close> in terms of the elapsed
  milliseconds.
\<close>

lemma floor_seconds:
  "\<lfloor>real_of_int ms / 1000 / real_of_int k\<rfloor> = ms div (1000 * k)"
proof -
  have "real_of_int ms / 1000 / real_of_int k = real_of_int ms / real_of_int (1000 * k)"
    by simp
  then show ?thesis
    by (simp only: floor_divide_of_int_eq)
qed

lemma timeAgoLabel_tiers:
  assumes "0 \<le> ms"
  shows "timeAgoLabel ms =
     (if ms < 60000 then ''now''
      else if ms < 3600000 then show_int (ms div 60000) @ ''m''
      else if ms < 86400000 then show_int (ms div 3600000) @ ''h''
      else show_int (ms div 86400000) @ ''d'')"
proof -
  have h: "ms div 60000 div 60 = ms div 3600000"
    using zdiv_zmult2_eq [of 60 ms 60000] by simp
  have d: "ms div 3600000 div 24 = ms div 86400000"
    using zdiv_zmult2_eq [of 24 ms 3600000] by simp
  have c1: "ms div 60000 < 1 \<longleftrightarrow> ms < 60000" using assms by arith
  have c2: "ms div 60000 < 60 \<longleftrightarrow> ms < 3600000" using assms by arith
  have c3: "ms div 3600000 < 24 \<longleftrightarrow> ms < 86400000" using assms by arith
  show ?thesis
    by (simp add: timeAgoLabel_def Let_def h d c1 c2 c3)
qed

text \<open>
  The two global replacements of \<^verbatim>\<open>formatTriggerReason\<close> keep the length and act
  position by position; no step of the formatter turns a non-empty string into the empty
  one.
\<close>

lemma length_replace_underscores: "length (replace_underscores s) = length s"
  by (simp add: replace_underscores_def)

lemma replace_underscores_nth:
  "i < length s \<Longrightarrow>
   replace_underscores s ! i = (if s ! i = CHR ''_'' then CHR '' '' else s ! i)"
  by (simp add: replace_underscores_def)

lemma length_upcase_word_starts: "length (upcase_word_starts prev s) = length s"
  by (induction s arbitrary: prev) simp_all

lemma upcase_word_starts_nth:
  "i < length s \<Longrightarrow>
   upcase_word_starts prev s ! i =
     (if is_word_char (s ! i) \<and> \<not> (if i = 0 then prev else is_word_char (s ! (i - 1)))
      then toUpperCase_char (s ! i) else s ! i)"
proof (induction s arbitrary: prev i)
  case Nil
  then show ?case by simp
next
  case (Cons c cs)
  show ?case
  proof (cases i)
    case 0
    then show ?thesis by simp
  next
    case (Suc j)
    with Cons.prems have "j < length cs" by simp
    from Cons.IH [OF this, of "is_word_char c"] Suc show ?thesis
      by (cases j) simp_all
  qed
qed

lemma replace_first_eq_Nil:
  "rep \<noteq> [] \<Longrightarrow> pat \<noteq> [] \<Longrightarrow> replace_first pat rep s = [] \<longleftrightarrow> s = []"
  by (cases s) simp_all

lemma apply_overrides_eq_Nil: "apply_overrides s = [] \<longleftrightarrow> s = []"
  by (simp add: apply_overrides_def replace_first_eq_Nil)

lemma upcase_word_starts_eq_Nil: "upcase_word_starts prev s = [] \<longleftrightarrow> s = []"
  by (cases s) simp_all

lemma formatTriggerReason_empty_iff:
  "formatTriggerReason v = Inr formatted \<Longrightarrow> formatted = [] \<longleftrightarrow> \<not> truthy v"
  by (cases v)
    (auto simp: apply_overrides_eq_Nil upcase_word_starts_eq_Nil replace_underscores_def
      split: if_splits)

subsection \<open>Pagination\<close>

text \<open>
  Claim C1: \<^verbatim>\<open>hasNextPage\<close> is true if and only if the page as the API returned it,
  before the \<^verbatim>\<open>BACKUP_OPERATION\<close> filter, holds 20 entries. The source compares the
  length of \<^verbatim>\<open>activities\<close>, the list after the filter: a full page of 20 entries, one
  of them a backup operation, has a filtered length of 19 and \<^verbatim>\<open>hasNextPage\<close> is
  false, although the API returned a full page.
\<close>

theorem hasNextPage_full_page_with_backup:
  "length (sample_activity ''BACKUP_OPERATION'' None
            # replicate 19 (sample_activity ''PLAYER_SURGE'' None)) = ITEMS_PER_PAGE
   \<and> \<not> hasNextPage (Some (sample_activity ''BACKUP_OPERATION'' None
            # replicate 19 (sample_activity ''PLAYER_SURGE'' None)))"
  by (simp add: hasNextPage_def activities_def ITEMS_PER_PAGE_def sample_activity_def)

subsection \<open>The presenter and absent metadata fields\<close>

text \<open>
  Claim C2: absent metadata fields are defaulted to zero or the empty string for every
  activity type, so that a \<^verbatim>\<open>PLAYER_SURGE\<close> activity without player counts shows counts
  of 0. The source defaults the server counts of a scaling operation
  (\<^verbatim>\<open>metadata.servers_before || 0\<close>) but reads the player counts as they are: on the
  metadata \<^verbatim>\<open>{}\<close> the surge summary prints \<^verbatim>\<open>undefined\<close> on both sides of the
  arrow and the badge is \<^verbatim>\<open>+NaN\<close>, where the scaling summary on the same metadata
  prints \<^verbatim>\<open>0\<close> on both sides.
\<close>

theorem player_surge_without_counts:
  "getActivityDetails (sample_activity ''PLAYER_SURGE'' (Some empty_metadata))
     = Inr \<lparr>summary = ''undefined'' @ arrow @ ''undefined players'',
            details = ''Surge detected in 5m'',
            badge = Some ''+NaN''\<rparr>
   \<and> getActivityDetails (sample_activity ''SCALING_OPERATION'' (Some empty_metadata))
     = Inr \<lparr>summary = ''0'' @ arrow @ ''0 servers'',
            details = ''Auto-scaling triggered'',
            badge = Some ''-0''\<rparr>"
  by (simp add: getActivityDetails_def try_catch_def getActivityDetails_switch_def
      sample_activity_def empty_metadata_def show_int_def show_nat.simps digit_char_def)

subsection \<open>formatTimeAgo\<close>

text \<open>
  The claim that a timestamp carrying its own time-zone information is handed to the
  parser unaltered fails for a numeric offset: the string holds no \<^verbatim>\<open>Z\<close>, so a
  \<^verbatim>\<open>Z\<close> is appended, and a parser that accepts the timestamp as given is never asked
  about it.
\<close>

theorem utcTimestamp_offset_is_altered:
  "utcTimestamp ''2024-01-01T10:00:00+02:00'' = ''2024-01-01T10:00:00+02:00Z''
   \<and> formatTimeAgo (\<lambda>s. if s = ''2024-01-01T10:00:00+02:00'' then Some 0 else None) 90000
         ''2024-01-01T10:00:00+02:00'' = ''NaNd''"
  by (simp add: utcTimestamp_def formatTimeAgo_def)

text \<open>
  Claim C3, as the source has it: the marker is the character \<^verbatim>\<open>Z\<close> anywhere in the
  string. A timestamp that holds one is parsed exactly as given; a timestamp that holds
  none is treated exactly as the same timestamp with \<^verbatim>\<open>Z\<close> appended, whatever else it
  holds.
\<close>

theorem formatTimeAgo_utc_marker:
  "(CHR ''Z'' \<in> set ts \<longrightarrow>
      formatTimeAgo parse now ts =
        (case parse ts of None \<Rightarrow> ''NaNd'' | Some t \<Rightarrow> timeAgoLabel (now - t)))
   \<and> (CHR ''Z'' \<notin> set ts \<longrightarrow>
      formatTimeAgo parse now ts = formatTimeAgo parse now (ts @ ''Z'')
      \<and> formatTimeAgo parse now ts =
        (case parse (ts @ ''Z'') of None \<Rightarrow> ''NaNd'' | Some t \<Rightarrow> timeAgoLabel (now - t)))"
  by (simp add: formatTimeAgo_def utcTimestamp_def)

theorem formatTimeAgo_utc_marker_witness:
  "formatTimeAgo (\<lambda>s. if s = ''2024-01-01T10:00:00Z'' then Some 0 else None) 90000
      ''2024-01-01T10:00:00Z'' = ''1m''
   \<and> formatTimeAgo (\<lambda>s. if s = ''2024-01-01T10:00:00Z'' then Some 0 else None) 90000
      ''2024-01-01T10:00:00'' = ''1m''"
proof -
  let ?p = "\<lambda>s. if s = ''2024-01-01T10:00:00Z'' then Some (0::int) else None"
  have l: "timeAgoLabel 90000 = ''1m''"
    by (simp add: timeAgoLabel_def show_int_def show_nat.simps digit_char_def)
  have "formatTimeAgo ?p 90000 ''2024-01-01T10:00:00Z'' = ''1m''"
    using formatTimeAgo_utc_marker [of "''2024-01-01T10:00:00Z''" ?p 90000] l by simp
  moreover have "formatTimeAgo ?p 90000 ''2024-01-01T10:00:00'' = ''1m''"
    using formatTimeAgo_utc_marker [of "''2024-01-01T10:00:00''" ?p 90000] l by auto
  ultimately show ?thesis by blast
qed

text \<open>
  Claim C4: for a timestamp that parses and lies \<open>s \<ge> 0\<close> seconds in the past, the
  label is \<^verbatim>\<open>now\<close> below a minute, the whole minutes followed by \<^verbatim>\<open>m\<close> below an
  hour, the whole hours followed by \<^verbatim>\<open>h\<close> below a day, and the whole days followed by
  \<^verbatim>\<open>d\<close> from then on, each count rounded down. The elapsed time \<open>s\<close> is the
  difference of the two millisecond clocks divided by 1000, a real number.
\<close>

theorem formatTimeAgo_tiers:
  assumes "parse (utcTimestamp ts) = Some activityTime"
    and "0 \<le> now - activityTime"
  shows "formatTimeAgo parse now ts =
     (let s = real_of_int (now - activityTime) / 1000 in
      if s < 60 then ''now''
      else if s < 3600 then show_int \<lfloor>s / 60\<rfloor> @ ''m''
      else if s < 86400 then show_int \<lfloor>s / 3600\<rfloor> @ ''h''
      else show_int \<lfloor>s / 86400\<rfloor> @ ''d'')"
proof -
  let ?ms = "now - activityTime"
  have f1: "\<lfloor>real_of_int ?ms / 1000 / 60\<rfloor> = ?ms div 60000"
    using floor_seconds [of ?ms 60] by simp
  have f2: "\<lfloor>real_of_int ?ms / 1000 / 3600\<rfloor> = ?ms div 3600000"
    using floor_seconds [of ?ms 3600] by simp
  have f3: "\<lfloor>real_of_int ?ms / 1000 / 86400\<rfloor> = ?ms div 86400000"
    using floor_seconds [of ?ms 86400] by simp
  have c1: "real_of_int ?ms / 1000 < 60 \<longleftrightarrow> ?ms < 60000" by auto
  have c2: "real_of_int ?ms / 1000 < 3600 \<longleftrightarrow> ?ms < 3600000" by auto
  have c3: "real_of_int ?ms / 1000 < 86400 \<longleftrightarrow> ?ms < 86400000" by auto
  have "formatTimeAgo parse now ts = timeAgoLabel ?ms"
    using assms(1) by (simp add: formatTimeAgo_def)
  then show ?thesis
    unfolding Let_def f1 f2 f3 c1 c2 c3
    using timeAgoLabel_tiers [OF assms(2)] by simp
qed

text \<open>
  The instances of the specification: 90 seconds, 7200 seconds and 200000 seconds ago,
  and one millisecond short of a minute.
\<close>

theorem formatTimeAgo_tiers_witness:
  "formatTimeAgo (\<lambda>_. Some 0) 59999 ''2024-01-01T10:00:00'' = ''now''
   \<and> formatTimeAgo (\<lambda>_. Some 0) 90000 ''2024-01-01T10:00:00'' = ''1m''
   \<and> formatTimeAgo (\<lambda>_. Some 0) 7200000 ''2024-01-01T10:00:00'' = ''2h''
   \<and> formatTimeAgo (\<lambda>_. Some 0) 200000000 ''2024-01-01T10:00:00'' = ''2d''"
proof -
  have p: "(\<lambda>_. Some 0) (utcTimestamp ''2024-01-01T10:00:00'') = Some (0::int)" by simp
  have "formatTimeAgo (\<lambda>_. Some 0) 59999 ''2024-01-01T10:00:00'' = ''now''"
    using formatTimeAgo_tiers [of "\<lambda>_. Some 0" "''2024-01-01T10:00:00''" 0 59999] by simp
  moreover have "formatTimeAgo (\<lambda>_. Some 0) 90000 ''2024-01-01T10:00:00'' = ''1m''"
    using formatTimeAgo_tiers [of "\<lambda>_. Some 0" "''2024-01-01T10:00:00''" 0 90000]
    by (simp add: show_int_def show_nat.simps digit_char_def)
  moreover have "formatTimeAgo (\<lambda>_. Some 0) 7200000 ''2024-01-01T10:00:00'' = ''2h''"
    using formatTimeAgo_tiers [of "\<lambda>_. Some 0" "''2024-01-01T10:00:00''" 0 7200000]
    by (simp add: show_int_def show_nat.simps digit_char_def)
  moreover have "formatTimeAgo (\<lambda>_. Some 0) 200000000 ''2024-01-01T10:00:00'' = ''2d''"
    using formatTimeAgo_tiers [of "\<lambda>_. Some 0" "''2024-01-01T10:00:00''" 0 200000000]
    by (simp add: show_int_def show_nat.simps digit_char_def)
  ultimately show ?thesis by blast
qed

subsection \<open>formatTriggerReason\<close>

text \<open>
  Claim C5: the empty code gives the empty string; a non-empty code has every underscore
  replaced by a space, then every word character that starts a word (the first character,
  or one that follows a character which is not a word character) put in upper case, then
  the override phrases replaced; the three instances of the specification hold.
\<close>

theorem formatTriggerReason_format:
  "formatTriggerReason (JStr []) = Inr []
   \<and> formatTriggerReason (JStr ''scale_up_threshold'') = Inr ''High utilization''
   \<and> formatTriggerReason (JStr ''custom_reason'') = Inr ''Custom Reason''
   \<and> (code \<noteq> [] \<longrightarrow>
        (let spaced = replace_underscores code;
             capitalized = upcase_word_starts False spaced
         in formatTriggerReason (JStr code) = Inr (apply_overrides capitalized)
            \<and> length spaced = length code \<and> length capitalized = length code
            \<and> (\<forall>i < length code.
                  spaced ! i = (if code ! i = CHR ''_'' then CHR '' '' else code ! i))
            \<and> (\<forall>i < length code.
                  capitalized ! i =
                    (if is_word_char (spaced ! i)
                        \<and> (i = 0 \<or> \<not> is_word_char (spaced ! (i - 1)))
                     then toUpperCase_char (spaced ! i) else spaced ! i))))"
proof -
  have e1: "formatTriggerReason (JStr ''scale_up_threshold'') = Inr ''High utilization''"
    by (simp add: apply_overrides_def replace_underscores_def is_word_char_def
        toUpperCase_char_def)
  have e2: "formatTriggerReason (JStr ''custom_reason'') = Inr ''Custom Reason''"
    by (simp add: apply_overrides_def replace_underscores_def is_word_char_def
        toUpperCase_char_def)
  have cap: "\<forall>i < length code.
      upcase_word_starts False (replace_underscores code) ! i =
        (if is_word_char (replace_underscores code ! i)
            \<and> (i = 0 \<or> \<not> is_word_char (replace_underscores code ! (i - 1)))
         then toUpperCase_char (replace_underscores code ! i)
         else replace_underscores code ! i)"
  proof (intro allI impI)
    fix i assume "i < length code"
    then have "i < length (replace_underscores code)"
      by (simp add: length_replace_underscores)
    from upcase_word_starts_nth [OF this, of False] show
      "upcase_word_starts False (replace_underscores code) ! i =
        (if is_word_char (replace_underscores code ! i)
            \<and> (i = 0 \<or> \<not> is_word_char (replace_underscores code ! (i - 1)))
         then toUpperCase_char (replace_underscores code ! i)
         else replace_underscores code ! i)"
      by (cases "i = 0") simp_all
  qed
  have sp: "\<forall>i < length code.
      replace_underscores code ! i = (if code ! i = CHR ''_'' then CHR '' '' else code ! i)"
    by (simp add: replace_underscores_nth)
  show ?thesis
    unfolding Let_def
    using e1 e2 cap sp
    by (simp add: length_replace_underscores length_upcase_word_starts)
qed

theorem formatTriggerReason_format_witness:
  "formatTriggerReason (JStr ''minimum_servers_enforcement'')
     = Inr (apply_overrides ''Minimum Servers Enforcement'')
   \<and> apply_overrides ''Minimum Servers Enforcement'' = ''Maintaining minimum servers''
   \<and> upcase_word_starts False (replace_underscores ''a_b'') ! 2 = CHR ''B''"
proof -
  have ne: "''minimum_servers_enforcement'' \<noteq> []" by simp
  have up: "upcase_word_starts False (replace_underscores ''minimum_servers_enforcement'')
      = ''Minimum Servers Enforcement''"
    by (simp add: replace_underscores_def is_word_char_def toUpperCase_char_def)
  have a: "formatTriggerReason (JStr ''minimum_servers_enforcement'')
     = Inr (apply_overrides ''Minimum Servers Enforcement'')"
    using formatTriggerReason_format [of "''minimum_servers_enforcement''"] ne up
    by (simp add: Let_def)
  have b: "apply_overrides ''Minimum Servers Enforcement'' = ''Maintaining minimum servers''"
    by (simp add: apply_overrides_def)
  have sp: "replace_underscores ''a_b'' = ''a b''"
    by (simp add: replace_underscores_def)
  have "(2::nat) < length ''a_b''" by simp
  with formatTriggerReason_format [of "''a_b''"] have
    "upcase_word_starts False (replace_underscores ''a_b'') ! 2 =
      (if is_word_char (replace_underscores ''a_b'' ! 2)
          \<and> ((2::nat) = 0 \<or> \<not> is_word_char (replace_underscores ''a_b'' ! (2 - 1)))
       then toUpperCase_char (replace_underscores ''a_b'' ! 2)
       else replace_underscores ''a_b'' ! 2)"
    unfolding Let_def by blast
  then have c: "upcase_word_starts False (replace_underscores ''a_b'') ! 2 = CHR ''B''"
    unfolding sp by (simp add: is_word_char_def toUpperCase_char_def)
  from a b c show ?thesis by blast
qed

subsection \<open>The presenter on scaling operations\<close>

text \<open>
  Claim C6: for a \<^verbatim>\<open>SCALING_OPERATION\<close> whose metadata gives \<^verbatim>\<open>servers_before = b\<close>
  and \<^verbatim>\<open>servers_after = c\<close>, the summary is \<open>b \<rightarrow> c\<close> \<^verbatim>\<open>servers\<close>, the details are the
  formatted trigger reason, or \<^verbatim>\<open>Auto-scaling triggered\<close> when the reason is absent or
  empty, and the badge is the sign of the direction followed by \<open>\<bar>c - b\<bar>\<close>. The trigger
  reason is one that the formatter accepts (absent, or a string).
\<close>

theorem scaling_operation_details:
  assumes "activityType a = ''SCALING_OPERATION''"
    and "metadata a = Some m"
    and "servers_before m = Some b"
    and "servers_after m = Some c"
    and "formatTriggerReason (trigger_reason m) = Inr formatted"
  shows "getActivityDetails a =
     Inr \<lparr>summary = show_int b @ arrow @ show_int c @ '' servers'',
          details = (if truthy (trigger_reason m) then formatted else ''Auto-scaling triggered''),
          badge = Some ((if direction m = Some ''up'' then ''+'' else ''-'')
                          @ show_int \<bar>c - b\<bar>)\<rparr>"
proof -
  have "formatted \<noteq> [] \<longleftrightarrow> truthy (trigger_reason m)"
    using formatTriggerReason_empty_iff [OF assms(5)] by simp
  then show ?thesis
    using assms
    by (simp add: getActivityDetails_def try_catch_def getActivityDetails_switch_def Let_def)
qed

theorem scaling_operation_details_witness:
  "getActivityDetails
     (sample_activity ''SCALING_OPERATION''
        (Some (empty_metadata\<lparr>servers_before := Some 3, servers_after := Some 5,
                                direction := Some ''up''\<rparr>)))
     = Inr \<lparr>summary = ''3'' @ arrow @ ''5 servers'',
            details = ''Auto-scaling triggered'',
            badge = Some ''+2''\<rparr>
   \<and> getActivityDetails
     (sample_activity ''SCALING_OPERATION''
        (Some (empty_metadata\<lparr>servers_before := Some 5, servers_after := Some 3,
                                direction := Some ''down'',
                                trigger_reason := JStr ''scale_down_threshold''\<rparr>)))
     = Inr \<lparr>summary = ''5'' @ arrow @ ''3 servers'',
            details = ''Low utilization'',
            badge = Some ''-2''\<rparr>"
proof -
  let ?m1 = "empty_metadata\<lparr>servers_before := Some 3, servers_after := Some 5,
                             direction := Some ''up''\<rparr>"
  let ?m2 = "empty_metadata\<lparr>servers_before := Some 5, servers_after := Some 3,
                             direction := Some ''down'',
                             trigger_reason := JStr ''scale_down_threshold''\<rparr>"
  have s3: "show_int 3 = ''3''" and s5: "show_int 5 = ''5''" and s2: "show_int 2 = ''2''"
    by (simp_all add: show_int_def show_nat.simps digit_char_def)
  have f1: "formatTriggerReason (trigger_reason ?m1) = Inr []"
    by (simp add: empty_metadata_def)
  have f2: "formatTriggerReason (trigger_reason ?m2) = Inr ''Low utilization''"
    by (simp add: empty_metadata_def apply_overrides_def replace_underscores_def
        is_word_char_def toUpperCase_char_def)
  have "getActivityDetails (sample_activity ''SCALING_OPERATION'' (Some ?m1))
     = Inr \<lparr>summary = ''3'' @ arrow @ ''5 servers'',
            details = ''Auto-scaling triggered'', badge = Some ''+2''\<rparr>"
    using scaling_operation_details
      [of "sample_activity ''SCALING_OPERATION'' (Some ?m1)" ?m1 3 5 "[]"] f1 s3 s5 s2
    by (simp add: sample_activity_def empty_metadata_def)
  moreover have "getActivityDetails (sample_activity ''SCALING_OPERATION'' (Some ?m2))
     = Inr \<lparr>summary = ''5'' @ arrow @ ''3 servers'',
            details = ''Low utilization'', badge = Some ''-2''\<rparr>"
    using scaling_operation_details
      [of "sample_activity ''SCALING_OPERATION'' (Some ?m2)" ?m2 5 3 "''Low utilization''"]
      f2 s3 s5 s2
    by (simp add: sample_activity_def empty_metadata_def)
  ultimately show ?thesis by blast
qed

subsection \<open>The presenter never throws\<close>

text \<open>
  Claim C7: the presenter returns an object for every activity, and whenever the
  \<^verbatim>\<open>switch\<close> inside its \<^verbatim>\<open>try\<close> block throws, the object returned has the empty
  summary, details and badge.
\<close>

theorem getActivityDetails_catches:
  "(\<exists>d. getActivityDetails a = Inr d) \<and>
   (\<forall>m e. metadata a = Some m \<longrightarrow> getActivityDetails_switch (activityType a) m = Inl e \<longrightarrow>
      getActivityDetails a = Inr \<lparr>summary = [], details = [], badge = Some []\<rparr>)"
  by (simp add: getActivityDetails_def try_catch_def split: option.split sum.split)

text \<open>
  A trigger reason that is a number makes the formatter throw inside the block.
\<close>

theorem getActivityDetails_catches_witness:
  "getActivityDetails_switch ''SCALING_OPERATION'' (empty_metadata\<lparr>trigger_reason := JNum 7\<rparr>)
     = Inl TypeError
   \<and> getActivityDetails
       (sample_activity ''SCALING_OPERATION'' (Some (empty_metadata\<lparr>trigger_reason := JNum 7\<rparr>)))
     = Inr \<lparr>summary = [], details = [], badge = Some []\<rparr>"
proof -
  let ?m = "empty_metadata\<lparr>trigger_reason := JNum 7\<rparr>"
  let ?a = "sample_activity ''SCALING_OPERATION'' (Some ?m)"
  have thrown: "getActivityDetails_switch ''SCALING_OPERATION'' ?m = Inl TypeError"
    by (simp add: getActivityDetails_switch_def empty_metadata_def)
  have "metadata ?a = Some ?m" "activityType ?a = ''SCALING_OPERATION''"
    by (simp_all add: sample_activity_def)
  with thrown getActivityDetails_catches [of ?a] show ?thesis
    by simp
qed

subsection \<open>The rendered list\<close>

text \<open>
  Claim C8: the page renders for every query result, and its rows are the activities of
  the fetched page whose type is not \<^verbatim>\<open>BACKUP_OPERATION\<close>, in order: no row shows a
  backup operation, wherever it stood in the page.
\<close>

theorem backup_operations_never_rendered:
  "\<exists>v. ActivityPage parse now isPending activitiesData currentPage = Inr v \<and>
     (\<forall>rs. list_area v = Rows rs \<longrightarrow>
        map row_activity rs = activities activitiesData \<and>
        (\<forall>r \<in> set rs. activityType (row_activity r) \<noteq> ''BACKUP_OPERATION''))"
proof -
  let ?acts = "activities activitiesData"
  obtain rs where rs: "render_rows parse now ?acts = Inr rs" "map row_activity rs = ?acts"
    using render_rows_returns by blast
  have "\<forall>r \<in> set rs. activityType (row_activity r) \<noteq> ''BACKUP_OPERATION''"
  proof
    fix r assume "r \<in> set rs"
    then have "row_activity r \<in> set (map row_activity rs)" by simp
    then show "activityType (row_activity r) \<noteq> ''BACKUP_OPERATION''"
      using rs(2) activities_no_backup by simp
  qed
  with rs show ?thesis
    by (simp add: ActivityPage_def Let_def)
qed

theorem backup_operations_never_rendered_witness:
  "\<exists>v rs. ActivityPage (\<lambda>_. None) 0 False
        (Some [sample_activity ''BACKUP_OPERATION'' None,
               sample_activity ''ATLAS_LIFECYCLE'' None,
               sample_activity ''BACKUP_OPERATION'' None]) 1 = Inr v
      \<and> list_area v = Rows rs
      \<and> map row_activity rs = [sample_activity ''ATLAS_LIFECYCLE'' None]"
proof -
  let ?page = "Some [sample_activity ''BACKUP_OPERATION'' None,
               sample_activity ''ATLAS_LIFECYCLE'' None,
               sample_activity ''BACKUP_OPERATION'' None]"
  have acts: "activities ?page = [sample_activity ''ATLAS_LIFECYCLE'' None]"
    by (simp add: activities_def sample_activity_def)
  obtain v where v: "ActivityPage (\<lambda>_. None) 0 False ?page 1 = Inr v"
    and rows: "\<forall>rs. list_area v = Rows rs \<longrightarrow>
        map row_activity rs = activities ?page \<and>
        (\<forall>r \<in> set rs. activityType (row_activity r) \<noteq> ''BACKUP_OPERATION'')"
    using backup_operations_never_rendered [of "\<lambda>_. None" 0 False ?page 1] by blast
  obtain rs where rs: "render_rows (\<lambda>_. None) 0 (activities ?page) = Inr rs"
    using render_rows_returns by blast
  with v have "list_area v = Rows rs"
    by (auto simp: ActivityPage_def Let_def acts)
  with v rows acts show ?thesis by auto
qed

text \<open>
  Claim C9: once loading has finished, a page whose filtered list is empty shows the
  zero-results message and no pagination bar, whatever the current page is.
\<close>

theorem empty_page_has_no_pagination:
  "\<not> isPending \<Longrightarrow> activities activitiesData = [] \<Longrightarrow>
   ActivityPage parse now isPending activitiesData currentPage
     = Inr \<lparr>list_area = NoActivityFound, pagination_bar = None\<rparr>"
  by (simp add: ActivityPage_def)

text \<open>
  On page 3, where \<^verbatim>\<open>hasPrevPage\<close> holds, a page of backup operations only leaves no
  Previous button.
\<close>

theorem empty_page_has_no_pagination_witness:
  "hasPrevPage 3 \<and>
   ActivityPage (\<lambda>_. None) 0 False (Some [sample_activity ''BACKUP_OPERATION'' None]) 3
     = Inr \<lparr>list_area = NoActivityFound, pagination_bar = None\<rparr>"
proof -
  have "activities (Some [sample_activity ''BACKUP_OPERATION'' None]) = []"
    by (simp add: activities_def sample_activity_def)
  then show ?thesis
    using empty_page_has_no_pagination
      [of False "Some [sample_activity ''BACKUP_OPERATION'' None]" "\<lambda>_. None" 0 3]
    by (simp add: hasPrevPage_def)
qed

subsection \<open>The sign of the scaling badge\<close>

text \<open>
  Claim C10: for a \<^verbatim>\<open>SCALING_OPERATION\<close> whose direction is absent or any string other
  than \<^verbatim>\<open>up\<close>, the badge is a minus sign followed by the absolute difference of the
  server counts: the sign comes from the direction alone. The trigger reason is one that
  the formatter accepts.
\<close>

theorem scaling_badge_sign_from_direction:
  assumes "activityType a = ''SCALING_OPERATION''"
    and "metadata a = Some m"
    and "direction m \<noteq> Some ''up''"
    and "formatTriggerReason (trigger_reason m) = Inr formatted"
  shows "\<exists>d. getActivityDetails a = Inr d \<and>
     badge d = Some (CHR ''-''
        # show_int \<bar>or_zero (servers_after m) - or_zero (servers_before m)\<bar>)"
  using assms
  by (simp add: getActivityDetails_def try_catch_def getActivityDetails_switch_def Let_def)

text \<open>
  Three servers before and five after, with the direction \<^verbatim>\<open>down\<close> or with none.
\<close>

theorem scaling_badge_sign_from_direction_witness:
  "(\<exists>d. getActivityDetails
        (sample_activity ''SCALING_OPERATION''
          (Some (empty_metadata\<lparr>servers_before := Some 3, servers_after := Some 5,
                                  direction := Some ''down''\<rparr>))) = Inr d
      \<and> badge d = Some ''-2'')
   \<and> (\<exists>d. getActivityDetails
        (sample_activity ''SCALING_OPERATION''
          (Some (empty_metadata\<lparr>servers_before := Some 3, servers_after := Some 5\<rparr>))) = Inr d
      \<and> badge d = Some ''-2'')"
proof -
  let ?m1 = "empty_metadata\<lparr>servers_before := Some 3, servers_after := Some 5,
                             direction := Some ''down''\<rparr>"
  let ?m2 = "empty_metadata\<lparr>servers_before := Some 3, servers_after := Some 5\<rparr>"
  have s2: "show_int 2 = ''2''"
    by (simp add: show_int_def show_nat.simps digit_char_def)
  have "\<exists>d. getActivityDetails (sample_activity ''SCALING_OPERATION'' (Some ?m1)) = Inr d
      \<and> badge d = Some ''-2''"
    using scaling_badge_sign_from_direction
      [of "sample_activity ''SCALING_OPERATION'' (Some ?m1)" ?m1 "[]"] s2
    by (simp add: sample_activity_def empty_metadata_def)
  moreover have "\<exists>d. getActivityDetails (sample_activity ''SCALING_OPERATION'' (Some ?m2)) = Inr d
      \<and> badge d = Some ''-2''"
    using scaling_badge_sign_from_direction
      [of "sample_activity ''SCALING_OPERATION'' (Some ?m2)" ?m2 "[]"] s2
    by (simp add: sample_activity_def empty_metadata_def)
  ultimately show ?thesis by blast
qed

end
